theory Spec2Isabelle
  imports Complex_Main
begin

section \<open>Values and failures of the Python program\<close>

text \<open>
  The program (\<open>Steamlit_API.py\<close>) passes around the values that \<open>json.load\<close> produces:
  \<open>None\<close>, booleans, integers, floats, strings, lists and dictionaries. A dictionary is an
  association list in insertion order; looking a key up takes the first pair with that key.
  A float is represented by its exact value as a rational; the program only ever tests a
  float for being zero (truthiness) and never computes with one that it read.
  Strings are character lists; a character outside ASCII stands as its UTF-8 bytes.
  An integer read by \<open>json.loads\<close> has at most 4300 digits, so turning it into text
  succeeds.
\<close>

datatype json =
    JNull
  | JBool bool
  | JInt int
  | JFloat rat
  | JStr string
  | JArr "json list"
  | JObj "(string \<times> json) list"

text \<open>
  The exceptions that the modelled statements can raise. \<open>RerunException\<close> is how
  \<open>st.rerun()\<close> ends the current run of the script.
\<close>

datatype exn =
    FileNotFoundError
  | PermissionError
  | JSONDecodeError
  | AttributeError
  | TypeError
  | KeyError
  | ValueError
  | RequestException
  | StreamlitAPIException
  | APIError
  | RerunException
  | OSError
  | OverflowError
  | RecursionError
  | UnicodeDecodeError

text \<open>Truth value of a value in a condition (\<open>if logs:\<close>, \<open>if transcript:\<close>, ...).\<close>

fun truthy :: "json \<Rightarrow> bool" where
  "truthy JNull = False"
| "truthy (JBool b) = b"
| "truthy (JInt n) = (n \<noteq> 0)"
| "truthy (JFloat r) = (r \<noteq> 0)"
| "truthy (JStr s) = (s \<noteq> [])"
| "truthy (JArr xs) = (xs \<noteq> [])"
| "truthy (JObj kvs) = (kvs \<noteq> [])"

section \<open>The environment of a run\<close>

text \<open>
  The log file \<open>call_logs.json\<close> as \<open>open(LOG_FILE)\<close> finds it: absent
  (\<open>FileNotFoundError\<close>), present but not openable for reading (any other \<open>OSError\<close>,
  here \<open>PermissionError\<close>), or present with some text. \<open>writable\<close> says whether
  \<open>open(LOG_FILE, "w")\<close> succeeds; it empties the file when it does. \<open>capacity\<close> is the
  number of characters the file takes before a write to it fails (a full disk, a quota),
  \<open>None\<close> when no write fails.
\<close>

datatype file_state = Missing | Unreadable | Content string

record store =
  log_file :: file_state
  writable :: bool
  capacity :: "nat option"

text \<open>
  A reply of the voice gateway as the program reads it: \<open>resp.ok\<close>, \<open>resp.json()\<close>
  (the value, or the exception it raises) and \<open>resp.text\<close>.
\<close>

record response =
  ok :: bool
  body_json :: "exn + json"
  body_text :: string

text \<open>
  The ways \<open>json.load\<close> and \<open>json.loads\<close> fail on a text, with the exception of each:
  a text that is not JSON, an integer of more than 4300 digits, nesting beyond the
  recursion limit, and bytes that do not decode.
\<close>

datatype json_failure = Malformed | TooManyDigits | TooDeep | BadEncoding

fun json_exn :: "json_failure \<Rightarrow> exn" where
  "json_exn Malformed = JSONDecodeError"
| "json_exn TooManyDigits = ValueError"
| "json_exn TooDeep = RecursionError"
| "json_exn BadEncoding = UnicodeDecodeError"

text \<open>
  How the Unicode database of the interpreter classes a character: no digit, a decimal
  digit with its value (\<open>str.isdigit\<close> holds and \<open>int\<close> reads it), or a digit of another
  kind such as a superscript (\<open>str.isdigit\<close> holds and \<open>int\<close> refuses it).
\<close>

datatype digit_class = NotDigit | Decimal nat | OtherDigit

text \<open>
  The libraries and services the program calls are parameters of the model:
  \<^item> \<open>json_loads\<close>: \<open>json.load\<close> / \<open>json.loads\<close> on a text, the value or the failure;
  \<^item> \<open>json_dumps\<close>: the text \<open>json.dump(v, f, indent=2)\<close> writes;
  \<^item> \<open>requests_post url payload\<close> and \<open>requests_get url timeout\<close>: the HTTP calls, which
    either raise or return a reply;
  \<^item> \<open>groq_create model system user\<close>: the chat completion at temperature 0.2; it
    raises or returns \<open>completion.choices[0].message.content\<close> (a string or \<open>None\<close>);
  \<^item> \<open>to_excel call qa\<close>: the bytes of the workbook that \<open>pd.ExcelWriter\<close> produces from
    \<open>pd.DataFrame(call)\<close> as sheet \<open>CallData\<close> and \<open>pd.DataFrame(qa)\<close> as sheet
    \<open>QA Evaluation\<close>, or the exception pandas or xlsxwriter raises;
  \<^item> \<open>sentiment t\<close>: \<open>TextBlob(t).sentiment\<close>'s polarity and subjectivity, each as the
    text that the format \<open>:.2f\<close> gives;
  \<^item> \<open>st_dataframe v\<close>: the exception \<open>st.dataframe(v)\<close> raises, \<open>None\<close> when it shows
    the table;
  \<^item> \<open>unicode_digit c\<close>: the class of a character outside ASCII, given as its UTF-8
    bytes;
  \<^item> \<open>utcnow\<close>: \<open>datetime.utcnow().isoformat()\<close>;
  \<^item> \<open>ASSISTANT_ID\<close>, \<open>PHONE_ID\<close>: what \<open>os.getenv\<close> returned (a string or \<open>None\<close>).
\<close>

record env =
  json_loads :: "string \<Rightarrow> json_failure + json"
  json_dumps :: "json \<Rightarrow> string"
  requests_post :: "string \<Rightarrow> json \<Rightarrow> exn + response"
  requests_get :: "string \<Rightarrow> nat \<Rightarrow> exn + response"
  groq_create :: "string \<Rightarrow> string \<Rightarrow> string \<Rightarrow> exn + string option"
  to_excel :: "json \<Rightarrow> json \<Rightarrow> exn + string"
  sentiment :: "string \<Rightarrow> string \<times> string"
  st_dataframe :: "json \<Rightarrow> exn option"
  unicode_digit :: "string \<Rightarrow> digit_class"
  utcnow :: string
  ASSISTANT_ID :: json
  PHONE_ID :: json

section \<open>Log store\<close>

text \<open>\<open>json.load(open(LOG_FILE))\<close>: the value read, or the exception raised.\<close>

definition json_load_file :: "env \<Rightarrow> store \<Rightarrow> exn + json" where
  "json_load_file E st =
     (case log_file st of
        Missing \<Rightarrow> Inl FileNotFoundError
      | Unreadable \<Rightarrow> Inl PermissionError
      | Content s \<Rightarrow> (case json_loads E s of Inl f \<Rightarrow> Inl (json_exn f) | Inr v \<Rightarrow> Inr v))"

text \<open>\<open>logs.append(entry)\<close>: only a list has the method.\<close>

definition append_entry :: "json \<Rightarrow> json \<Rightarrow> exn + json" where
  "append_entry logs entry =
     (case logs of JArr xs \<Rightarrow> Inr (JArr (xs @ [entry])) | _ \<Rightarrow> Inl AttributeError)"

text \<open>
  \<open>with open(LOG_FILE, "w") as f: json.dump(logs, f, indent=2)\<close>. Opening fails with
  the file untouched, or empties the file; then the text is written piece by piece. When
  the file takes all of it the new text replaces the old; when a write fails, \<open>OSError\<close>
  leaves the statement and the file holds the part of the new text written so far.
\<close>

definition fits :: "store \<Rightarrow> string \<Rightarrow> bool" where
  "fits st txt = (case capacity st of None \<Rightarrow> True | Some n \<Rightarrow> length txt \<le> n)"

definition write_logs :: "env \<Rightarrow> store \<Rightarrow> json \<Rightarrow> exn option \<times> store" where
  "write_logs E st logs =
     (if \<not> writable st then (Some PermissionError, st)
      else
        (case capacity st of
           None \<Rightarrow> (None, st\<lparr>log_file := Content (json_dumps E logs)\<rparr>)
         | Some n \<Rightarrow>
             if length (json_dumps E logs) \<le> n
             then (None, st\<lparr>log_file := Content (json_dumps E logs)\<rparr>)
             else (Some OSError, st\<lparr>log_file := Content (take n (json_dumps E logs))\<rparr>)))"

text \<open>
  The first half of \<open>save_log(entry)\<close>: the list read, with the entry appended. Only
  \<open>FileNotFoundError\<close> is caught while reading.
\<close>

definition prepare_logs :: "env \<Rightarrow> store \<Rightarrow> json \<Rightarrow> exn + json" where
  "prepare_logs E st entry =
     (case (case json_load_file E st of
              Inl FileNotFoundError \<Rightarrow> Inr (JArr [])
            | Inl e \<Rightarrow> Inl e
            | Inr v \<Rightarrow> Inr v) of
        Inl e \<Rightarrow> Inl e
      | Inr logs \<Rightarrow> append_entry logs entry)"

text \<open>
  \<open>save_log(entry)\<close>. The result is the exception that leaves the function, if any, and
  the store afterwards.
\<close>

definition save_log :: "env \<Rightarrow> store \<Rightarrow> json \<Rightarrow> exn option \<times> store" where
  "save_log E st entry =
     (case prepare_logs E st entry of
        Inl e \<Rightarrow> (Some e, st)
      | Inr logs' \<Rightarrow> write_logs E st logs')"

text \<open>\<open>load_logs()\<close>: the bare \<open>except\<close> turns every exception into the empty list.\<close>

definition load_logs :: "env \<Rightarrow> store \<Rightarrow> exn + json" where
  "load_logs E st =
     (case json_load_file E st of Inl e \<Rightarrow> Inr (JArr []) | Inr v \<Rightarrow> Inr v)"

section \<open>What a run shows and sends\<close>

text \<open>
  An f-string is kept as its parts: literal text and the values it formats with \<open>str\<close>.
  The Streamlit elements are recorded in the order the script emits them. Rendering calls
  are taken to succeed, except \<open>st.progress\<close>, which rejects a float outside
  \<open>[0.0, 1.0]\<close>, and \<open>st.dataframe\<close>, which rejects what is not a table. \<open>Progress score\<close> stands for \<open>st.progress(score / 5)\<close> and
  \<open>Pyplot labels ratings\<close> for the horizontal bar chart of the ratings.
\<close>

datatype part = Lit string | Fmt json

datatype element =
    Title string
  | Sidebar_write "part list"
  | Success string
  | Error string
  | Info string
  | Json json
  | Markdown "part list"
  | Subheader string
  | Text json
  | Write "part list"
  | Progress int
  | Pyplot "string list" "int list"
  | Exception exn
  | Download_button string
  | Dataframe json

text \<open>The HTTP requests, with the fixed headers left out: the URL and the body or timeout.\<close>

datatype request = POST string json | GET string nat

text \<open>
  What a piece of the script did: the exception that left it (if any), the elements it
  added to the page, and the requests it sent.
\<close>

record 'a outcome =
  result :: "exn + 'a"
  shown :: "element list"
  sent :: "request list"

section \<open>Dictionary and sequence operations of Python\<close>

text \<open>\<open>d.get(k)\<close>, with \<open>None\<close> as default; only a dictionary has the method.\<close>

definition dict_get :: "json \<Rightarrow> string \<Rightarrow> exn + json" where
  "dict_get d k =
     (case d of
        JObj kvs \<Rightarrow> (case map_of kvs k of None \<Rightarrow> Inr JNull | Some v \<Rightarrow> Inr v)
      | _ \<Rightarrow> Inl AttributeError)"

text \<open>\<open>item[k]\<close> with a string key.\<close>

definition subscript :: "json \<Rightarrow> string \<Rightarrow> exn + json" where
  "subscript item k =
     (case item of
        JObj kvs \<Rightarrow> (case map_of kvs k of None \<Rightarrow> Inl KeyError | Some v \<Rightarrow> Inr v)
      | _ \<Rightarrow> Inl TypeError)"

text \<open>
  The characters of a string: every byte that is not a continuation byte of UTF-8 starts
  a character, and the continuation bytes after it belong to it.
\<close>

definition is_cont :: "char \<Rightarrow> bool" where
  "is_cont c = (128 \<le> (of_char c :: nat) \<and> (of_char c :: nat) < 192)"

fun chars_of :: "string \<Rightarrow> string list" where
  "chars_of [] = []"
| "chars_of (c # cs) =
     (case cs of
        [] \<Rightarrow> [[c]]
      | d # ds \<Rightarrow>
          if is_cont d
          then (case chars_of cs of [] \<Rightarrow> [[c]] | g # gs \<Rightarrow> (c # g) # gs)
          else [c] # chars_of cs)"

text \<open>
  \<open>for item in parsed\<close>: a list gives its elements, a dictionary its keys, a string its
  characters; nothing else can be iterated.
\<close>

definition py_iter :: "json \<Rightarrow> exn + json list" where
  "py_iter v =
     (case v of
        JArr xs \<Rightarrow> Inr xs
      | JObj kvs \<Rightarrow> Inr (map (\<lambda>kv. JStr (fst kv)) kvs)
      | JStr s \<Rightarrow> Inr (map JStr (chars_of s))
      | _ \<Rightarrow> Inl TypeError)"

section \<open>Call gateway client\<close>

definition call_url :: "string \<Rightarrow> string" where
  "call_url call_id = ''https://api.vapi.ai/call/'' @ call_id"

text \<open>
  \<open>fetch_call_details(call_id)\<close>. \<open>return None\<close> is the value \<open>JNull\<close>. An exception of
  \<open>requests.get\<close> is not caught.
\<close>

definition fetch_call_details :: "env \<Rightarrow> string \<Rightarrow> json outcome" where
  "fetch_call_details E call_id =
     (let url = call_url call_id in
      case requests_get E url 10 of
        Inl e \<Rightarrow> \<lparr>result = Inl e, shown = [], sent = [GET url 10]\<rparr>
      | Inr resp \<Rightarrow>
          if ok resp then
            (case body_json resp of
               Inr v \<Rightarrow> \<lparr>result = Inr v, shown = [], sent = [GET url 10]\<rparr>
             | Inl e \<Rightarrow>
                 (case json_loads E (body_text resp) of
                    Inr v \<Rightarrow> \<lparr>result = Inr v, shown = [], sent = [GET url 10]\<rparr>
                  | Inl f \<Rightarrow>
                      \<lparr>result = Inr JNull,
                       shown = [Error ''Could not parse API response as JSON.''],
                       sent = [GET url 10]\<rparr>))
          else
            \<lparr>result = Inr JNull,
             shown = [Error ''Failed to fetch call details.''],
             sent = [GET url 10]\<rparr>)"

text \<open>The body of the call-creation request and the entry logged for a started call.\<close>

definition payload :: "env \<Rightarrow> string \<Rightarrow> json" where
  "payload E number =
     JObj [(''assistantId'', ASSISTANT_ID E),
           (''phoneNumberId'', PHONE_ID E),
           (''customer'', JObj [(''number'', JStr number)])]"

definition log_entry :: "env \<Rightarrow> json \<Rightarrow> string \<Rightarrow> json" where
  "log_entry E call_id number =
     JObj [(''time'', JStr (utcnow E)), (''call_id'', call_id), (''number'', JStr number)]"

text \<open>
  The start-call action of \<open>app_main\<close> (the body of \<open>if submitted:\<close>), on the store
  \<open>st\<close>. Nothing is caught here: an exception of \<open>requests.post\<close>, \<open>resp.json()\<close>,
  \<open>data.get\<close> or \<open>save_log\<close> leaves the action.
\<close>

definition start_call :: "env \<Rightarrow> store \<Rightarrow> string \<Rightarrow> unit outcome \<times> store" where
  "start_call E st number =
     (let req = POST ''https://api.vapi.ai/call/phone'' (payload E number) in
      case requests_post E ''https://api.vapi.ai/call/phone'' (payload E number) of
        Inl e \<Rightarrow> (\<lparr>result = Inl e, shown = [], sent = [req]\<rparr>, st)
      | Inr resp \<Rightarrow>
          if ok resp then
            (case body_json resp of
               Inl e \<Rightarrow> (\<lparr>result = Inl e, shown = [], sent = [req]\<rparr>, st)
             | Inr data \<Rightarrow>
                 (case dict_get data ''id'' of
                    Inl e \<Rightarrow>
                      (\<lparr>result = Inl e,
                        shown = [Success ''Call initiated!'', Json data],
                        sent = [req]\<rparr>, st)
                  | Inr cid \<Rightarrow>
                      (case save_log E st (log_entry E cid number) of
                         (Some e, st') \<Rightarrow>
                           (\<lparr>result = Inl e,
                             shown = [Success ''Call initiated!'', Json data],
                             sent = [req]\<rparr>, st')
                       | (None, st') \<Rightarrow>
                           (\<lparr>result = Inr (),
                             shown = [Success ''Call initiated!'', Json data],
                             sent = [req]\<rparr>, st'))))
          else
            (\<lparr>result = Inr (), shown = [Error ''Error: Unable to start call.''],
              sent = [req]\<rparr>, st))"

section \<open>Transcript analyzer\<close>

text \<open>The fixed rubric.\<close>

definition qa_questions :: "string list" where
  "qa_questions =
    [''Did the agent introduce themselves and identify the dealership during the introduction?'',
     ''Did the agent identify the reason for the call?'',
     ''Did the agent speak to the correct person?'',
     ''Did the agent verify the phone/email address?'',
     ''Did the agent verify the vehicle information?'',
     ''Did the agent ask for current mileage and was clear on campaign service (DFS/INA/Recall)?'',
     ''Did the agent recap the appointment and represent the dealership positively and with a sense of trust?'',
     ''Did the agent set urgency in scheduling an appointment as soon as possible?'',
     ''Was the agent professional throughout the call?'',
     ''Did the agent speak confidently?'',
     ''Did the agent display active listening skills?'',
     ''Did the agent sound upbeat, enthusiastic, and friendly?'']"

definition nl :: string where
  "nl = [CHR 0x0A]"

definition en_dash :: string where
  "en_dash = [CHR 0xE2, CHR 0x80, CHR 0x93]"

definition minus_sign :: string where
  "minus_sign = [CHR 0xE2, CHR 0x88, CHR 0x92]"

text \<open>The pictographs of the headings, as UTF-8.\<close>

definition pictograph :: "nat \<Rightarrow> nat \<Rightarrow> string" where
  "pictograph a b = [CHR 0xF0, CHR 0x9F, char_of a, char_of b]"

text \<open>The prompt: the instructions, the transcript and one line per rubric question.\<close>

definition prompt_head :: "string \<Rightarrow> string" where
  "prompt_head transcript =
     ''You are a call QA evaluator.'' @ nl @
     ''Based on the transcript below, evaluate the following questions.'' @ nl @
     ''Respond as a JSON list with each item containing:'' @ nl @
     ''- question'' @ nl @
     ''- rating (1'' @ en_dash @ ''5 or '' @ [CHR 0x27] @ ''N/A'' @ [CHR 0x27] @ '')'' @ nl @
     ''- explanation'' @ nl @ nl @
     ''Rating Scale: 1 = Very Poor, 2 = Poor, 3 = Average, 4 = Good, 5 = Excellent, N/A = Not Applicable'' @ nl @ nl @
     ''Transcript:'' @ nl @ transcript @ nl @ nl @
     ''Questions:'' @ nl"

definition prompt :: "string list \<Rightarrow> string \<Rightarrow> string" where
  "prompt questions transcript =
     foldl (\<lambda>p q. p @ ''- '' @ q @ nl) (prompt_head transcript) questions"

text \<open>
  \<open>str(item["rating"]).isdigit()\<close> and, when it holds, \<open>int(item["rating"])\<close>. The text of
  a value is all digits only for a non-negative integer and for a non-empty string of
  digits; the text of a float has a point, an exponent or letters, that of a negative
  integer a sign, and \<open>None\<close>, booleans, lists and dictionaries print with letters or
  brackets. A character of ASCII is a digit when it is one of \<open>0\<close> to \<open>9\<close>; any other
  character is classed by the Unicode database. \<open>int\<close> reads decimal digits only and
  refuses a string of more than 4300 digits.
\<close>

definition is_digit :: "char \<Rightarrow> bool" where
  "is_digit c = (48 \<le> (of_char c :: nat) \<and> (of_char c :: nat) \<le> 57)"

definition char_class :: "env \<Rightarrow> string \<Rightarrow> digit_class" where
  "char_class E ch =
     (case ch of
        [c] \<Rightarrow>
          if (of_char c :: nat) < 128
          then (if is_digit c then Decimal (of_char c - 48) else NotDigit)
          else unicode_digit E ch
      | _ \<Rightarrow> unicode_digit E ch)"

definition decimal_value :: "digit_class \<Rightarrow> int" where
  "decimal_value d = (case d of Decimal v \<Rightarrow> int v | _ \<Rightarrow> 0)"

definition str_isdigit :: "env \<Rightarrow> string \<Rightarrow> bool" where
  "str_isdigit E s =
     (s \<noteq> [] \<and> list_all (\<lambda>ch. char_class E ch \<noteq> NotDigit) (chars_of s))"

text \<open>\<open>int(s)\<close> for a string of digits.\<close>

definition py_int :: "env \<Rightarrow> string \<Rightarrow> exn + int" where
  "py_int E s =
     (if list_ex (\<lambda>ch. char_class E ch = OtherDigit) (chars_of s) \<or>
         4300 < length (chars_of s)
      then Inl ValueError
      else Inr (foldl (\<lambda>n ch. 10 * n + decimal_value (char_class E ch)) 0 (chars_of s)))"

fun rating_score :: "env \<Rightarrow> json \<Rightarrow> (exn + int) option" where
  "rating_score E (JInt n) = (if 0 \<le> n then Some (Inr n) else None)"
| "rating_score E (JStr s) = (if str_isdigit E s then Some (py_int E s) else None)"
| "rating_score E _ = None"

text \<open>
  \<open>item['question'][:50] + "..."\<close>: only a string can be sliced and joined to a string;
  the slice is the first 50 characters.
\<close>

definition label_of :: "json \<Rightarrow> exn + string" where
  "label_of q =
     (case q of
        JStr s \<Rightarrow> Inr (concat (take 50 (chars_of s)) @ ''...'')
      | _ \<Rightarrow> Inl TypeError)"

definition scale_legend :: string where
  "scale_legend =
     ''**Rating Scale:** 1 = Very Poor | 2 = Poor | 3 = Average | 4 = Good | 5 = Excellent''"

text \<open>
  The three lines every item starts with; each subscript can raise, after the lines before
  it were shown.
\<close>

definition item_lines :: "json \<Rightarrow> element list \<times> (exn + json \<times> json)" where
  "item_lines item =
     (case subscript item ''question'' of
        Inl e \<Rightarrow> ([], Inl e)
      | Inr q \<Rightarrow>
          (case subscript item ''rating'' of
             Inl e \<Rightarrow> ([Markdown [Lit ''**Q:** '', Fmt q]], Inl e)
           | Inr r \<Rightarrow>
               (case subscript item ''explanation'' of
                  Inl e \<Rightarrow>
                    ([Markdown [Lit ''**Q:** '', Fmt q],
                      Write [Lit ''**Rating:** '', Fmt r]], Inl e)
                | Inr x \<Rightarrow>
                    ([Markdown [Lit ''**Q:** '', Fmt q],
                      Write [Lit ''**Rating:** '', Fmt r],
                      Write [Lit ''**Explanation:** '', Fmt x]], Inr (q, r)))))"

text \<open>
  \<open>score / 5\<close> is a float: the division raises \<open>OverflowError\<close> when the quotient rounds
  to \<open>2 ^ 1024\<close> or more, that is from \<open>2 ^ 1024 - 2 ^ 970\<close> on. \<open>overflow_from\<close> is the
  least score for which it does.
\<close>

definition overflow_from :: int where
  "overflow_from = 5 * (2 ^ 1024 - 2 ^ 970)"

text \<open>
  One round of the loop over the items, with the ratings and labels collected so far.
  \<open>st.progress\<close> rejects a float above 1.
\<close>

definition qa_item ::
  "env \<Rightarrow> json \<Rightarrow> int list \<times> string list \<Rightarrow>
     element list \<times> (exn + int list \<times> string list)" where
  "qa_item E item acc =
     (case item_lines item of
        (els, Inl e) \<Rightarrow> (els, Inl e)
      | (els, Inr (q, r)) \<Rightarrow>
          (case rating_score E r of
             None \<Rightarrow>
               (els @ [Markdown [Lit ''**Rating Scale:** N/A (Not Applicable)''],
                       Markdown [Lit ''---'']], Inr acc)
           | Some (Inl e) \<Rightarrow> (els, Inl e)
           | Some (Inr score) \<Rightarrow>
               if overflow_from \<le> score then (els, Inl OverflowError)
               else if 5 < score then (els, Inl StreamlitAPIException)
               else
                 (case label_of q of
                    Inl e \<Rightarrow> (els @ [Progress score, Markdown [Lit scale_legend]], Inl e)
                  | Inr l \<Rightarrow>
                      (els @ [Progress score, Markdown [Lit scale_legend],
                              Markdown [Lit ''---'']],
                       Inr (fst acc @ [score], snd acc @ [l])))))"

fun qa_loop ::
  "env \<Rightarrow> json list \<Rightarrow> int list \<times> string list \<Rightarrow>
     element list \<times> (exn + int list \<times> string list)" where
  "qa_loop E [] acc = ([], Inr acc)"
| "qa_loop E (item # items) acc =
     (case qa_item E item acc of
        (els, Inl e) \<Rightarrow> (els, Inl e)
      | (els, Inr acc') \<Rightarrow>
          (case qa_loop E items acc' of (els', r) \<Rightarrow> (els @ els', r)))"

text \<open>
  What follows \<open>parsed = json.loads(response)\<close> inside the \<open>try\<close>: the heading, the loop
  and the chart.
\<close>

definition qa_results :: "env \<Rightarrow> json \<Rightarrow> element list \<times> exn option" where
  "qa_results E parsed =
     (case py_iter parsed of
        Inl e \<Rightarrow> ([Subheader (pictograph 0x93 0x9D @ '' QA Evaluation Results'')], Some e)
      | Inr items \<Rightarrow>
          (case qa_loop E items ([], []) of
             (els, Inl e) \<Rightarrow>
               (Subheader (pictograph 0x93 0x9D @ '' QA Evaluation Results'') # els, Some e)
           | (els, Inr (ratings, labels)) \<Rightarrow>
               (Subheader (pictograph 0x93 0x9D @ '' QA Evaluation Results'') # els @
                (if ratings \<noteq> []
                 then [Subheader (pictograph 0x93 0x88 @ '' Ratings Overview''),
                       Pyplot labels ratings]
                 else []),
                None)))"

text \<open>
  The \<open>try\<close> block of the evaluation with its \<open>except Exception\<close>: the elements shown and
  the value of \<open>parsed\<close> afterwards, which stays \<open>[]\<close> unless \<open>json.loads\<close> returned.
\<close>

definition evaluate_qa :: "env \<Rightarrow> string \<Rightarrow> element list \<times> json" where
  "evaluate_qa E transcript =
     (case groq_create E ''llama3-70b-8192''
             ''You are a strict QA evaluator. Respond only in valid JSON.''
             (prompt qa_questions transcript) of
        Inl e \<Rightarrow> ([Error ''LLaMA evaluation failed.'', Exception e], JArr [])
      | Inr None \<Rightarrow> ([Error ''LLaMA evaluation failed.'', Exception TypeError], JArr [])
      | Inr (Some response) \<Rightarrow>
          (case json_loads E response of
             Inl f \<Rightarrow> ([Error ''LLaMA evaluation failed.'', Exception (json_exn f)], JArr [])
           | Inr parsed \<Rightarrow>
               (case qa_results E parsed of
                  (els, None) \<Rightarrow> (els, parsed)
                | (els, Some e) \<Rightarrow>
                    (els @ [Error ''LLaMA evaluation failed.'', Exception e], parsed))))"

text \<open>
  The branch \<open>if transcript:\<close>: the transcript, the sentiment, the evaluation.
  \<open>TextBlob\<close> raises \<open>TypeError\<close> on anything but a string. \<open>sentiment_lines\<close> are the
  elements from the transcript heading to the heading of the evaluation.
\<close>

definition sentiment_lines :: "env \<Rightarrow> string \<Rightarrow> element list" where
  "sentiment_lines E t =
     [Markdown [Lit (''### '' @ pictograph 0x93 0x84 @ '' Full Transcript'')],
      Text (JStr t),
      Subheader (pictograph 0x98 0x8A @ '' Sentiment Analysis''),
      Write [Lit ''**Polarity:** '', Lit (fst (sentiment E t)),
             Lit ('' ('' @ minus_sign @ ''1 = Negative, +1 = Positive)'')],
      Write [Lit ''**Subjectivity:** '', Lit (snd (sentiment E t)),
             Lit '' (0 = Objective, 1 = Subjective)''],
      Subheader (pictograph 0x93 0x8A @ '' QA Evaluation via LLaMA 4'')]"

definition analyze :: "env \<Rightarrow> json \<Rightarrow> (exn + json) \<times> element list" where
  "analyze E transcript =
     (case transcript of
        JStr t \<Rightarrow>
          (case evaluate_qa E t of
             (els, parsed) \<Rightarrow> (Inr parsed, sentiment_lines E t @ els))
      | _ \<Rightarrow>
          (Inl TypeError,
           [Markdown [Lit (''### '' @ pictograph 0x93 0x84 @ '' Full Transcript'')],
            Text transcript,
            Subheader (pictograph 0x98 0x8A @ '' Sentiment Analysis'')]))"

section \<open>Report builder\<close>

definition placeholder_row :: json where
  "placeholder_row =
     JObj [(''question'', JStr ''N/A''), (''rating'', JStr ''N/A''),
           (''explanation'', JStr ''No evaluation performed'')]"

text \<open>The data of the two frames, \<open>df_call\<close> and \<open>df_qa\<close>.\<close>

definition df_call :: "json \<Rightarrow> json" where
  "df_call structured = JArr [structured]"

definition df_qa :: "json \<Rightarrow> json" where
  "df_qa parsed = (if truthy parsed then parsed else JArr [placeholder_row])"

text \<open>
  \<open>details.get('analysis', {}).get('structuredData')\<close>: a missing \<open>analysis\<close> is the empty
  dictionary; one that is present and not a dictionary has no \<open>get\<close>.
\<close>

definition structured_data :: "(string \<times> json) list \<Rightarrow> exn + json" where
  "structured_data details =
     (case map_of details ''analysis'' of
        None \<Rightarrow> Inr JNull
      | Some a \<Rightarrow> dict_get a ''structuredData'')"

text \<open>
  The export (\<open>if structured:\<close> and its body): the workbook is built and offered only for
  structured data that is true as a condition.
\<close>

definition export :: "env \<Rightarrow> json \<Rightarrow> json \<Rightarrow> exn option \<times> element list" where
  "export E structured parsed =
     (if truthy structured then
        (case to_excel E (df_call structured) (df_qa parsed) of
           Inl e \<Rightarrow> (Some e, [])
         | Inr bytes \<Rightarrow> (None, [Download_button bytes]))
      else (None, []))"

section \<open>The page\<close>

text \<open>
  The body of \<open>if st.button("Get Transcript"):\<close>. The details must be a non-empty
  dictionary; \<open>parsed\<close> is \<open>[]\<close> unless the evaluation set it.
\<close>

definition transcript_section :: "env \<Rightarrow> string \<Rightarrow> unit outcome" where
  "transcript_section E call_id =
     (let f = fetch_call_details E call_id in
      case result f of
        Inl e \<Rightarrow> \<lparr>result = Inl e, shown = shown f, sent = sent f\<rparr>
      | Inr (JObj (kv # kvs)) \<Rightarrow>
          (let transcript = (case map_of (kv # kvs) ''transcript'' of None \<Rightarrow> JNull | Some v \<Rightarrow> v);
               a = (if truthy transcript then analyze E transcript
                    else (Inr (JArr []), [Info ''No transcript available for this call.'']))
           in case fst a of
                Inl e \<Rightarrow> \<lparr>result = Inl e, shown = shown f @ snd a, sent = sent f\<rparr>
              | Inr parsed \<Rightarrow>
                  (case structured_data (kv # kvs) of
                     Inl e \<Rightarrow> \<lparr>result = Inl e, shown = shown f @ snd a, sent = sent f\<rparr>
                   | Inr structured \<Rightarrow>
                       (case export E structured parsed of
                          (Some e, els) \<Rightarrow>
                            \<lparr>result = Inl e, shown = shown f @ snd a @ els, sent = sent f\<rparr>
                        | (None, els) \<Rightarrow>
                            \<lparr>result = Inr (), shown = shown f @ snd a @ els, sent = sent f\<rparr>)))
      | Inr _ \<Rightarrow>
          \<lparr>result = Inr (),
           shown = shown f @ [Error ''Could not fetch details or invalid response.''],
           sent = sent f\<rparr>)"

text \<open>
  The list of saved calls at the end of the page. \<open>st.dataframe\<close> raises on a value it
  cannot show as a table.
\<close>

definition show_logs :: "env \<Rightarrow> store \<Rightarrow> unit outcome" where
  "show_logs E st =
     (case load_logs E st of
        Inl e \<Rightarrow> \<lparr>result = Inl e, shown = [], sent = []\<rparr>
      | Inr logs \<Rightarrow>
          if truthy logs then
            (case st_dataframe E logs of
               Some e \<Rightarrow> \<lparr>result = Inl e, shown = [], sent = []\<rparr>
             | None \<Rightarrow> \<lparr>result = Inr (), shown = [Dataframe logs], sent = []\<rparr>)
          else \<lparr>result = Inr (), shown = [Info ''No calls logged yet.''], sent = []\<rparr>)"

text \<open>What the user did on the page before this run of the script.\<close>

record inputs =
  user :: string
  logout :: bool
  number :: string
  submitted :: bool
  call_id :: string
  get_transcript :: bool

text \<open>Statements in sequence: an exception of the first ends the run.\<close>

definition and_then ::
  "unit outcome \<times> store \<Rightarrow> (store \<Rightarrow> unit outcome \<times> store) \<Rightarrow> unit outcome \<times> store" where
  "and_then r k =
     (case result (fst r) of
        Inl e \<Rightarrow> r
      | Inr u \<Rightarrow>
          (let r' = k (snd r) in
           (\<lparr>result = result (fst r'),
             shown = shown (fst r) @ shown (fst r'),
             sent = sent (fst r) @ sent (fst r')\<rparr>, snd r')))"

definition emit :: "element list \<Rightarrow> store \<Rightarrow> unit outcome \<times> store" where
  "emit els st = (\<lparr>result = Inr (), shown = els, sent = []\<rparr>, st)"

text \<open>\<open>app_main()\<close>, one run of the script for a logged-in user.\<close>

definition app_main :: "env \<Rightarrow> inputs \<Rightarrow> store \<Rightarrow> unit outcome \<times> store" where
  "app_main E inp st =
     (if logout inp then
        (\<lparr>result = Inl RerunException,
          shown = [Sidebar_write [Lit ''Logged in as: `'', Lit (user inp), Lit ''`'']],
          sent = []\<rparr>, st)
      else
        and_then
          (emit [Sidebar_write [Lit ''Logged in as: `'', Lit (user inp), Lit ''`''],
                 Title ''Campaign Caller''] st)
          (\<lambda>st. and_then
             (if submitted inp then start_call E st (number inp) else emit [] st)
             (\<lambda>st. and_then
                (emit [Markdown [Lit ''---''], Subheader ''Fetch Call Transcripts''] st)
                (\<lambda>st. and_then
                   (if get_transcript inp then (transcript_section E (call_id inp), st)
                    else emit [] st)
                   (\<lambda>st. and_then
                      (emit [Markdown [Lit ''---''],
                             Subheader (pictograph 0x93 0x81 @ '' Saved Call Logs'')] st)
                      (\<lambda>st. (show_logs E st, st)))))))"

section \<open>The item shape of the specification\<close>

text \<open>
  The shape of an evaluation item in the data model of the specification: a dictionary
  with a question string, a rating that is an integer from 1 to 5 or the text \<open>N/A\<close>, and
  an explanation string. Other keys may be present. These predicates are not part of the
  program; the properties of the evaluation are stated with them.
\<close>

definition is_rating :: "json \<Rightarrow> bool" where
  "is_rating r = (case r of JInt n \<Rightarrow> 1 \<le> n \<and> n \<le> 5 | JStr s \<Rightarrow> s = ''N/A'' | _ \<Rightarrow> False)"

definition is_text :: "json \<Rightarrow> bool" where
  "is_text v = (case v of JStr s \<Rightarrow> True | _ \<Rightarrow> False)"

definition field_is :: "(json \<Rightarrow> bool) \<Rightarrow> json \<Rightarrow> string \<Rightarrow> bool" where
  "field_is P item k =
     (case item of
        JObj kvs \<Rightarrow> (case map_of kvs k of Some v \<Rightarrow> P v | None \<Rightarrow> False)
      | _ \<Rightarrow> False)"

definition qa_item_shape :: "json \<Rightarrow> bool" where
  "qa_item_shape item =
     (field_is is_text item ''question'' \<and> field_is is_rating item ''rating'' \<and>
      field_is is_text item ''explanation'')"

section \<open>A concrete environment for the examples\<close>

text \<open>
  One started call, the text \<open>json.dump\<close> writes for a log holding it, and gateway replies.
\<close>

definition demo_entry :: json where
  "demo_entry =
     JObj [(''time'', JStr ''2024-05-01T09:30:00.123456''),
           (''call_id'', JStr ''abc123''),
           (''number'', JStr ''+15551234567'')]"

definition demo_text :: string where
  \<open>demo_text =
     ''['' @ nl @
     ''  {'' @ nl @
     ''    "time": "2024-05-01T09:30:00.123456",'' @ nl @
     ''    "call_id": "abc123",'' @ nl @
     ''    "number": "+15551234567"'' @ nl @
     ''  }'' @ nl @
     '']''\<close>

text \<open>A second call, started later, for which the gateway gave no id.\<close>

definition demo_second :: json where
  "demo_second =
     JObj [(''time'', JStr ''2024-05-01T09:45:10.654321''),
           (''call_id'', JNull),
           (''number'', JStr ''+15557654321'')]"

definition demo_text2 :: string where
  \<open>demo_text2 =
     ''['' @ nl @
     ''  {'' @ nl @
     ''    "time": "2024-05-01T09:30:00.123456",'' @ nl @
     ''    "call_id": "abc123",'' @ nl @
     ''    "number": "+15551234567"'' @ nl @
     ''  },'' @ nl @
     ''  {'' @ nl @
     ''    "time": "2024-05-01T09:45:10.654321",'' @ nl @
     ''    "call_id": null,'' @ nl @
     ''    "number": "+15557654321"'' @ nl @
     ''  }'' @ nl @
     '']''\<close>

definition demo_started :: response where
  \<open>demo_started =
     \<lparr>ok = True,
      body_json = Inr (JObj [(''id'', JStr ''abc123'')]),
      body_text = ''{"id":"abc123"}''\<rparr>\<close>

definition demo_details :: response where
  \<open>demo_details =
     \<lparr>ok = True,
      body_json = Inr (JObj [(''transcript'', JStr ''Hello, this is...'')]),
      body_text = ''{"transcript":"Hello, this is..."}''\<rparr>\<close>

definition demo_refused :: response where
  \<open>demo_refused =
     \<lparr>ok = False, body_json = Inr (JObj [(''message'', JStr ''Not Found'')]),
      body_text = ''{"message":"Not Found"}''\<rparr>\<close>

definition demo_garbled :: response where
  "demo_garbled =
     \<lparr>ok = True, body_json = Inl JSONDecodeError, body_text = ''<html>Bad Gateway</html>''\<rparr>"

text \<open>
  The stand-ins know the texts and values of the examples: \<open>json_loads\<close> reads the empty
  list, the number 5, \<open>demo_text\<close> and \<open>demo_text2\<close> and rejects every other text, among
  them the empty text, a beginning of \<open>demo_text2\<close>, \<open>{oops\<close>,
  \<open><html>Bad Gateway</html>\<close> and the model's answer in prose. The gateway starts every
  call, knows the call \<open>abc123\<close>, answers a lookup of \<open>garbled\<close> with a page that is not
  JSON and refuses every other lookup. The model answers in prose. The workbook writer
  marks the workbook whose second sheet is the placeholder row. The table element
  rejects the number 5 and shows every other value. Outside ASCII the Arabic-Indic digit
  three is a decimal digit, the superscript two a digit of another kind, and nothing else
  is a digit.
\<close>

definition demo_env :: env where
  "demo_env =
     \<lparr>json_loads = (\<lambda>s. if s = ''[]'' then Inr (JArr [])
                        else if s = ''5'' then Inr (JInt 5)
                        else if s = demo_text then Inr (JArr [demo_entry])
                        else if s = demo_text2 then Inr (JArr [demo_entry, demo_second])
                        else Inl Malformed),
      json_dumps = (\<lambda>v. if v = JArr [demo_entry] then demo_text
                        else if v = JArr [demo_entry, demo_second] then demo_text2
                        else ''[]''),
      requests_post = (\<lambda>url body. Inr demo_started),
      requests_get = (\<lambda>url timeout.
                        if url = call_url ''abc123'' then Inr demo_details
                        else if url = call_url ''garbled'' then Inr demo_garbled
                        else Inr demo_refused),
      groq_create = (\<lambda>model system user. Inr (Some ''I am sorry, I cannot rate this call.'')),
      to_excel = (\<lambda>call qa. if qa = JArr [placeholder_row] then Inr ''PK-no-evaluation''
                             else Inr ''PK''),
      sentiment = (\<lambda>t. (''0.00'', ''0.00'')),
      st_dataframe = (\<lambda>v. if v = JInt 5 then Some StreamlitAPIException else None),
      unicode_digit = (\<lambda>c. if c = [CHR 0xD9, CHR 0xA3] then Decimal 3
                           else if c = [CHR 0xC2, CHR 0xB2] then OtherDigit
                           else NotDigit),
      utcnow = ''2024-05-01T09:30:00.123456'',
      ASSISTANT_ID = JStr ''assistant-1'',
      PHONE_ID = JStr ''phone-1''\<rparr>"

definition demo_inputs :: inputs where
  "demo_inputs =
     \<lparr>user = ''someone@gmail.com'', logout = False, number = [], submitted = False,
      call_id = ''abc123'', get_transcript = True\<rparr>"

text \<open>
  Answers of the model, as parsed: two items in the reverse of the rubric's order, the
  first with a key of its own; and an answer whose second item has no explanation.
\<close>

definition demo_items :: "json list" where
  "demo_items =
     [JObj [(''question'', JStr ''Did the agent sound upbeat, enthusiastic, and friendly?''),
            (''rating'', JStr ''N/A''),
            (''explanation'', JStr ''The call was too short to tell.''),
            (''confidence'', JStr ''low'')],
      JObj [(''question'', JStr ''Did the agent identify the reason for the call?''),
            (''rating'', JInt 5),
            (''explanation'', JStr ''The recall was named at once.'')]]"

definition demo_answer :: string where
  \<open>demo_answer =
     ''[{"question": "Did the agent speak confidently?", "rating": 4, '' @
     ''"explanation": "Clear and steady."}, '' @
     ''{"question": "Was the agent professional throughout the call?", "rating": 5}]''\<close>

definition demo_answer_items :: "json list" where
  "demo_answer_items =
     [JObj [(''question'', JStr ''Did the agent speak confidently?''),
            (''rating'', JInt 4),
            (''explanation'', JStr ''Clear and steady.'')],
      JObj [(''question'', JStr ''Was the agent professional throughout the call?''),
            (''rating'', JInt 5)]]"

text \<open>The environment in which the model gives \<open>demo_answer\<close>.\<close>

definition demo_env_answer :: env where
  "demo_env_answer =
     demo_env\<lparr>json_loads := (\<lambda>s. if s = demo_answer then Inr (JArr demo_answer_items)
                                 else json_loads demo_env s),
              groq_create := (\<lambda>model system user. Inr (Some demo_answer))\<rparr>"

section \<open>Properties of the log store\<close>

lemmas demo_defs = demo_env_def demo_text_def demo_text2_def nl_def

lemma load_logs_value:
  "load_logs E st =
     Inr (case log_file st of
            Content s \<Rightarrow> (case json_loads E s of Inl f \<Rightarrow> JArr [] | Inr v \<Rightarrow> v)
          | _ \<Rightarrow> JArr [])"
  by (simp add: load_logs_def json_load_file_def split: file_state.splits sum.splits)

text \<open>
  Claim C2. Whatever the state of the store file, \<open>load_logs\<close> returns a value and never
  an exception; when the file is missing, cannot be read or holds text that does not parse,
  the value is the empty list; when the text parses, the value is what it parses to.
\<close>

theorem load_logs_never_raises:
  "(\<exists>v. load_logs E st = Inr v) \<and>
   (log_file st = Missing \<or> log_file st = Unreadable \<or>
      (\<exists>s f. log_file st = Content s \<and> json_loads E s = Inl f)
    \<longrightarrow> load_logs E st = Inr (JArr [])) \<and>
   (\<forall>s v. log_file st = Content s \<and> json_loads E s = Inr v \<longrightarrow> load_logs E st = Inr v)"
  by (auto simp add: load_logs_def json_load_file_def split: file_state.splits sum.splits)

theorem load_logs_never_raises_witness:
  "json_loads demo_env ''{oops'' = Inl Malformed \<and>
   load_logs demo_env \<lparr>log_file = Content ''{oops'', writable = True, capacity = None\<rparr> = Inr (JArr []) \<and>
   load_logs demo_env \<lparr>log_file = Unreadable, writable = True, capacity = None\<rparr> = Inr (JArr []) \<and>
   json_loads demo_env demo_text = Inr (JArr [demo_entry]) \<and>
   load_logs demo_env \<lparr>log_file = Content demo_text, writable = True, capacity = None\<rparr> = Inr (JArr [demo_entry])"
  using load_logs_never_raises [of demo_env "\<lparr>log_file = Content ''{oops'', writable = True, capacity = None\<rparr>"]
    load_logs_never_raises [of demo_env "\<lparr>log_file = Unreadable, writable = True, capacity = None\<rparr>"]
    load_logs_never_raises [of demo_env "\<lparr>log_file = Content demo_text, writable = True, capacity = None\<rparr>"]
  by (simp add: demo_defs)

lemma json_exn_not_missing: "json_exn f \<noteq> FileNotFoundError"
  by (cases f) simp_all

lemma prepare_logs_cases:
  "prepare_logs E st entry =
     (case log_file st of
        Missing \<Rightarrow> Inr (JArr [entry])
      | Unreadable \<Rightarrow> Inl PermissionError
      | Content s \<Rightarrow>
          (case json_loads E s of
             Inl f \<Rightarrow> Inl (json_exn f)
           | Inr v \<Rightarrow> append_entry v entry))"
proof (cases "log_file st")
  case Missing
  then show ?thesis by (simp add: prepare_logs_def json_load_file_def append_entry_def)
next
  case Unreadable
  then show ?thesis by (simp add: prepare_logs_def json_load_file_def)
next
  case (Content s)
  show ?thesis
  proof (cases "json_loads E s")
    case (Inl f)
    with Content json_exn_not_missing [of f] show ?thesis
      by (cases "json_exn f") (simp_all add: prepare_logs_def json_load_file_def)
  next
    case (Inr v)
    with Content show ?thesis by (simp add: prepare_logs_def json_load_file_def)
  qed
qed

text \<open>
  Claim C3. On a well-formed store (writable and taking the whole new text; the file
  missing, or holding a text that parses to a list \<open>xs\<close>), with \<open>json.load\<close> reading back
  what \<open>json.dump\<close> writes for the new list, \<open>save_log entry\<close> returns normally and
  \<open>load_logs\<close> afterwards gives a list whose last element is \<open>entry\<close> and whose other
  elements are \<open>xs\<close>.
\<close>

theorem save_then_load_round_trip:
  assumes "writable st"
    and "fits st (json_dumps E (JArr (xs @ [entry])))"
    and "log_file st = Missing \<and> xs = [] \<or>
         (\<exists>s. log_file st = Content s \<and> json_loads E s = Inr (JArr xs))"
    and "json_loads E (json_dumps E (JArr (xs @ [entry]))) = Inr (JArr (xs @ [entry]))"
  shows "fst (save_log E st entry) = None \<and>
         (\<exists>ys. load_logs E (snd (save_log E st entry)) = Inr (JArr ys) \<and>
               ys \<noteq> [] \<and> last ys = entry \<and> butlast ys = xs)"
  using assms
  by (auto simp add: save_log_def prepare_logs_cases load_logs_value append_entry_def
      write_logs_def fits_def split: option.splits)

theorem save_then_load_round_trip_witness:
  "writable \<lparr>log_file = Content demo_text, writable = True, capacity = None\<rparr> \<and>
   fits \<lparr>log_file = Content demo_text, writable = True, capacity = None\<rparr>
     (json_dumps demo_env (JArr ([demo_entry] @ [demo_second]))) \<and>
   json_loads demo_env demo_text = Inr (JArr [demo_entry]) \<and>
   json_loads demo_env (json_dumps demo_env (JArr ([demo_entry] @ [demo_second])))
     = Inr (JArr ([demo_entry] @ [demo_second])) \<and>
   fst (save_log demo_env \<lparr>log_file = Content demo_text, writable = True, capacity = None\<rparr> demo_second) = None \<and>
   load_logs demo_env (snd (save_log demo_env \<lparr>log_file = Content demo_text, writable = True, capacity = None\<rparr> demo_second))
     = Inr (JArr [demo_entry, demo_second])"
  using save_then_load_round_trip [of "\<lparr>log_file = Content demo_text, writable = True, capacity = None\<rparr>" demo_env "[demo_entry]" demo_second]
  by (simp add: demo_defs save_log_def prepare_logs_cases load_logs_value
      append_entry_def write_logs_def fits_def demo_entry_def demo_second_def)

text \<open>
  Claim C10. When the store file exists and its text does not parse, \<open>save_log\<close> raises
  the error of the parser and leaves the store as it was; a file that cannot be opened for
  reading raises as well. Only a missing file is taken as the empty log: then the file
  written holds the entry alone.
\<close>

theorem save_log_corrupt_store:
  "(log_file st = Content s \<and> json_loads E s = Inl f \<longrightarrow>
      save_log E st entry = (Some (json_exn f), st)) \<and>
   (log_file st = Unreadable \<longrightarrow> save_log E st entry = (Some PermissionError, st)) \<and>
   (log_file st = Missing \<and> writable st \<and> fits st (json_dumps E (JArr [entry])) \<longrightarrow>
      save_log E st entry = (None, st\<lparr>log_file := Content (json_dumps E (JArr [entry]))\<rparr>))"
  by (auto simp add: save_log_def prepare_logs_cases write_logs_def fits_def split: option.splits)

theorem save_log_corrupt_store_witness:
  "json_loads demo_env ''{oops'' = Inl Malformed \<and>
   save_log demo_env \<lparr>log_file = Content ''{oops'', writable = True, capacity = None\<rparr> demo_entry
     = (Some JSONDecodeError, \<lparr>log_file = Content ''{oops'', writable = True, capacity = None\<rparr>) \<and>
   save_log demo_env \<lparr>log_file = Unreadable, writable = True, capacity = None\<rparr> demo_entry
     = (Some PermissionError, \<lparr>log_file = Unreadable, writable = True, capacity = None\<rparr>) \<and>
   save_log demo_env \<lparr>log_file = Missing, writable = True, capacity = None\<rparr> demo_entry
     = (None, \<lparr>log_file = Content demo_text, writable = True, capacity = None\<rparr>)"
  using save_log_corrupt_store [of "\<lparr>log_file = Content ''{oops'', writable = True, capacity = None\<rparr>" "''{oops''" demo_env Malformed demo_entry]
    save_log_corrupt_store [of "\<lparr>log_file = Unreadable, writable = True, capacity = None\<rparr>" "[]" demo_env Malformed demo_entry]
    save_log_corrupt_store [of "\<lparr>log_file = Missing, writable = True, capacity = None\<rparr>" "[]" demo_env Malformed demo_entry]
  by (simp add: demo_defs fits_def)


lemma prepare_logs_appends:
  "prepare_logs E st entry = Inr logs \<Longrightarrow>
   \<exists>xs. load_logs E st = Inr (JArr xs) \<and> logs = JArr (xs @ [entry])"
  by (auto simp add: prepare_logs_cases load_logs_value append_entry_def
      split: file_state.splits sum.splits json.splits)







text \<open>
  Two sessions that both read the log before either writes: the second rewrite replaces
  the first, and the entry of the first session is gone.
\<close>

lemma second_writer_wins:
  assumes "prepare_logs E st a = Inr la" and "prepare_logs E st b = Inr lb"
    and "writable st" and "capacity st = None"
  shows "write_logs E (snd (write_logs E st la)) lb =
           (None, st\<lparr>log_file := Content (json_dumps E lb)\<rparr>) \<and>
         (\<exists>xs. load_logs E st = Inr (JArr xs) \<and> lb = JArr (xs @ [b]))"
  using assms prepare_logs_appends [OF assms(2)]
  by (simp add: write_logs_def)




section \<open>Properties of the gateway client\<close>

text \<open>
  Claim C8. \<open>fetch_call_details\<close> sends exactly one request, a lookup of the call with
  timeout 10, whatever happens. A reply that is not a success gives no details and the
  message of a failed fetch; a success whose body parses neither through \<open>resp.json()\<close>
  nor through \<open>json.loads(resp.text)\<close> gives no details and the message of a failed
  decoding.
\<close>

theorem fetch_call_details_single_attempt:
  "sent (fetch_call_details E cid) = [GET (call_url cid) 10] \<and>
   (\<forall>resp. requests_get E (call_url cid) 10 = Inr resp \<and> \<not> ok resp \<longrightarrow>
      result (fetch_call_details E cid) = Inr JNull \<and>
      shown (fetch_call_details E cid) = [Error ''Failed to fetch call details.'']) \<and>
   (\<forall>resp e f. requests_get E (call_url cid) 10 = Inr resp \<and> ok resp \<and>
        body_json resp = Inl e \<and> json_loads E (body_text resp) = Inl f \<longrightarrow>
      result (fetch_call_details E cid) = Inr JNull \<and>
      shown (fetch_call_details E cid) = [Error ''Could not parse API response as JSON.''])"
  by (simp add: fetch_call_details_def Let_def split: sum.splits)

theorem fetch_call_details_single_attempt_witness:
  "sent (fetch_call_details demo_env ''nobody'') = [GET ''https://api.vapi.ai/call/nobody'' 10] \<and>
   requests_get demo_env (call_url ''nobody'') 10 = Inr demo_refused \<and> \<not> ok demo_refused \<and>
   result (fetch_call_details demo_env ''nobody'') = Inr JNull \<and>
   shown (fetch_call_details demo_env ''nobody'') = [Error ''Failed to fetch call details.''] \<and>
   requests_get demo_env (call_url ''garbled'') 10 = Inr demo_garbled \<and> ok demo_garbled \<and>
   body_json demo_garbled = Inl JSONDecodeError \<and>
   json_loads demo_env (body_text demo_garbled) = Inl Malformed \<and>
   result (fetch_call_details demo_env ''garbled'') = Inr JNull \<and>
   shown (fetch_call_details demo_env ''garbled'') = [Error ''Could not parse API response as JSON.'']"
  using fetch_call_details_single_attempt [of demo_env "''nobody''"]
    fetch_call_details_single_attempt [of demo_env "''garbled''"]
  by (simp add: demo_defs call_url_def demo_refused_def demo_garbled_def)







section \<open>Properties of the report builder\<close>

text \<open>
  Claim C7, as the code has it. With no evaluation the data of the QA sheet is the one
  placeholder row, and the export never raises for missing data; but a workbook is built
  only for structured data that is true as a condition. With empty structured data nothing
  is built and nothing is offered; with structured data and no evaluation the workbook is
  written from the structured data and the placeholder row.
\<close>

theorem export_needs_structured_data:
  "df_qa (JArr []) = JArr [placeholder_row] \<and>
   export E (JObj []) (JArr []) = (None, []) \<and>
   (\<not> truthy structured \<longrightarrow> export E structured parsed = (None, [])) \<and>
   (truthy structured \<longrightarrow>
      export E structured (JArr []) =
        (case to_excel E (JArr [structured]) (JArr [placeholder_row]) of
           Inl e \<Rightarrow> (Some e, [])
         | Inr bytes \<Rightarrow> (None, [Download_button bytes])))"
  by (simp add: export_def df_qa_def df_call_def)

theorem export_needs_structured_data_witness:
  "\<not> truthy JNull \<and> export demo_env JNull (JArr [demo_entry]) = (None, []) \<and>
   truthy (JObj [(''outcome'', JStr ''booked'')]) \<and>
   to_excel demo_env (JArr [JObj [(''outcome'', JStr ''booked'')]]) (JArr [placeholder_row])
     = Inr ''PK-no-evaluation'' \<and>
   export demo_env (JObj [(''outcome'', JStr ''booked'')]) (JArr [])
     = (None, [Download_button ''PK-no-evaluation''])"
  using export_needs_structured_data [of demo_env JNull "JArr [demo_entry]"]
    export_needs_structured_data [of demo_env "JObj [(''outcome'', JStr ''booked'')]"]
  by (simp add: demo_defs)

text \<open>
  The claim as stated fails on the empty inputs: no workbook comes out of the export.
\<close>

theorem export_empty_inputs_counterexample:
  "export demo_env (JObj []) (JArr []) = (None, [])"
  by (simp add: export_def)

section \<open>Properties of the transcript pipeline\<close>

lemma fetch_call_details_quiet:
  "result (fetch_call_details E cid) = Inr (JObj d) \<Longrightarrow>
   shown (fetch_call_details E cid) = [] \<and>
   sent (fetch_call_details E cid) = [GET (call_url cid) 10]"
  by (auto simp add: fetch_call_details_def Let_def split: sum.splits if_splits)

lemma item_lines_no_download:
  "item_lines item = (els, r) \<Longrightarrow> Download_button b \<notin> set els"
  by (auto simp add: item_lines_def split: sum.splits)

lemma qa_item_no_download:
  "qa_item E item acc = (els, r) \<Longrightarrow> Download_button b \<notin> set els"
  by (auto simp add: qa_item_def dest: item_lines_no_download
      split: prod.splits sum.splits option.splits if_splits)

lemma qa_loop_no_download:
  "qa_loop E items acc = (els, r) \<Longrightarrow> Download_button b \<notin> set els"
proof (induction items arbitrary: acc els r)
  case Nil
  then show ?case by simp
next
  case (Cons item items)
  then show ?case
    by (auto dest: qa_item_no_download split: prod.splits sum.splits)
qed

lemma qa_results_no_download:
  "qa_results E parsed = (els, r) \<Longrightarrow> Download_button b \<notin> set els"
  by (auto simp add: qa_results_def dest: qa_loop_no_download
      split: sum.splits prod.splits if_splits)

lemma evaluate_qa_no_download:
  "evaluate_qa E t = (els, parsed) \<Longrightarrow> Download_button b \<notin> set els"
  by (auto simp add: evaluate_qa_def dest: qa_results_no_download
      split: sum.splits option.splits prod.splits)

lemma structured_data_absent:
  "map_of d ''analysis'' = None \<or>
   (\<exists>a. map_of d ''analysis'' = Some (JObj a) \<and> map_of a ''structuredData'' = None) \<Longrightarrow>
   structured_data d = Inr JNull"
  by (auto simp add: structured_data_def dict_get_def)

text \<open>
  Claim C6, as the code has it. When the details hold a transcript and no \<open>analysis\<close>, or
  an \<open>analysis\<close> without \<open>structuredData\<close>, the section returns normally after showing the
  transcript, the sentiment and what the evaluation showed, and it offers no download.
\<close>

theorem transcript_without_structured_data:
  assumes "result (fetch_call_details E cid) = Inr (JObj (kv # kvs))"
    and "map_of (kv # kvs) ''transcript'' = Some (JStr t)"
    and "t \<noteq> []"
    and "map_of (kv # kvs) ''analysis'' = None \<or>
         (\<exists>a. map_of (kv # kvs) ''analysis'' = Some (JObj a) \<and>
              map_of a ''structuredData'' = None)"
  shows "transcript_section E cid =
           \<lparr>result = Inr (),
            shown = sentiment_lines E t @ fst (evaluate_qa E t),
            sent = [GET (call_url cid) 10]\<rparr> \<and>
         (\<forall>b. Download_button b \<notin> set (shown (transcript_section E cid)))"
proof -
  have q: "shown (fetch_call_details E cid) = []"
    "sent (fetch_call_details E cid) = [GET (call_url cid) 10]"
    using fetch_call_details_quiet [OF assms(1)] by simp_all
  have s: "structured_data (kv # kvs) = Inr JNull"
    using assms(4) by (rule structured_data_absent)
  have a: "analyze E (JStr t) = (Inr (snd (evaluate_qa E t)), sentiment_lines E t @ fst (evaluate_qa E t))"
    by (simp add: analyze_def split: prod.splits)
  have e: "export E JNull p = (None, [])" for p
    by (simp add: export_def)
  have 1: "transcript_section E cid =
           \<lparr>result = Inr (),
            shown = sentiment_lines E t @ fst (evaluate_qa E t),
            sent = [GET (call_url cid) 10]\<rparr>"
    using assms(1,2,3) q s a e
    by (simp add: transcript_section_def Let_def del: map_of.simps)
  have 2: "Download_button b \<notin> set (sentiment_lines E t @ fst (evaluate_qa E t))" for b
    using evaluate_qa_no_download [of E t "fst (evaluate_qa E t)" "snd (evaluate_qa E t)" b]
    by (simp add: sentiment_lines_def)
  from 1 2 show ?thesis by simp
qed

theorem transcript_without_structured_data_witness:
  "result (fetch_call_details demo_env ''abc123'')
     = Inr (JObj [(''transcript'', JStr ''Hello, this is...'')]) \<and>
   map_of [(''transcript'', JStr ''Hello, this is...'')] ''analysis'' = None \<and>
   transcript_section demo_env ''abc123'' =
     \<lparr>result = Inr (),
      shown = sentiment_lines demo_env ''Hello, this is...'' @
              [Error ''LLaMA evaluation failed.'', Exception JSONDecodeError],
      sent = [GET ''https://api.vapi.ai/call/abc123'' 10]\<rparr>"
  using transcript_without_structured_data [of demo_env "''abc123''"
      "(''transcript'', JStr ''Hello, this is...'')" "[]" "''Hello, this is...''"]
  by (simp add: demo_defs demo_details_def fetch_call_details_def call_url_def evaluate_qa_def)

text \<open>
  The claim as stated fails in the scenario of the specification: the call \<open>abc123\<close> has a
  transcript and no analysis, and the page ends with the outcome of the evaluation; there
  is no export button.
\<close>

theorem transcript_only_no_export_counterexample:
  "shown (transcript_section demo_env ''abc123'') =
     [Markdown [Lit (''### '' @ pictograph 0x93 0x84 @ '' Full Transcript'')],
      Text (JStr ''Hello, this is...''),
      Subheader (pictograph 0x98 0x8A @ '' Sentiment Analysis''),
      Write [Lit ''**Polarity:** '', Lit ''0.00'',
             Lit ('' ('' @ minus_sign @ ''1 = Negative, +1 = Positive)'')],
      Write [Lit ''**Subjectivity:** '', Lit ''0.00'',
             Lit '' (0 = Objective, 1 = Subjective)''],
      Subheader (pictograph 0x93 0x8A @ '' QA Evaluation via LLaMA 4''),
      Error ''LLaMA evaluation failed.'',
      Exception JSONDecodeError]"
  by (simp add: demo_defs demo_details_def fetch_call_details_def call_url_def evaluate_qa_def
      transcript_section_def analyze_def sentiment_lines_def structured_data_def export_def)

lemma show_logs_cases:
  "load_logs E st = Inr logs \<Longrightarrow>
   show_logs E st =
     \<lparr>result = (if truthy logs
                then (case st_dataframe E logs of None \<Rightarrow> Inr () | Some e \<Rightarrow> Inl e)
                else Inr ()),
      shown = (if truthy logs
               then (case st_dataframe E logs of None \<Rightarrow> [Dataframe logs] | Some e \<Rightarrow> [])
               else [Info ''No calls logged yet.'']),
      sent = []\<rparr>"
  by (simp add: show_logs_def split: option.splits)

text \<open>
  Claim C4. When the model's answer does not parse, the evaluation shows its failure and
  nothing else, and \<open>parsed\<close> stays the empty list: there is no QA result. The transcript
  and the two sentiment lines have been shown before, and the run goes on: with details
  that pass the export (\<open>els\<close> is what the export shows for no evaluation), \<open>app_main\<close>
  reaches the list of saved calls and ends as that list ends: with the table of the
  logs, with the note that there are none, or with the exception of \<open>st.dataframe\<close> when
  the logs are not a table.
\<close>

theorem evaluate_qa_invalid_json:
  assumes "groq_create E ''llama3-70b-8192''
             ''You are a strict QA evaluator. Respond only in valid JSON.''
             (prompt qa_questions t) = Inr (Some response)"
    and "json_loads E response = Inl f"
  shows "evaluate_qa E t =
           ([Error ''LLaMA evaluation failed.'', Exception (json_exn f)], JArr []) \<and>
         analyze E (JStr t) =
           (Inr (JArr []),
            [Markdown [Lit (''### '' @ pictograph 0x93 0x84 @ '' Full Transcript'')],
             Text (JStr t),
             Subheader (pictograph 0x98 0x8A @ '' Sentiment Analysis''),
             Write [Lit ''**Polarity:** '', Lit (fst (sentiment E t)),
                    Lit ('' ('' @ minus_sign @ ''1 = Negative, +1 = Positive)'')],
             Write [Lit ''**Subjectivity:** '', Lit (snd (sentiment E t)),
                    Lit '' (0 = Objective, 1 = Subjective)''],
             Subheader (pictograph 0x93 0x8A @ '' QA Evaluation via LLaMA 4''),
             Error ''LLaMA evaluation failed.'', Exception (json_exn f)]) \<and>
         (\<not> logout inp \<and> \<not> submitted inp \<and> get_transcript inp \<and>
          result (fetch_call_details E (call_id inp)) = Inr (JObj (kv # kvs)) \<and>
          map_of (kv # kvs) ''transcript'' = Some (JStr t) \<and> t \<noteq> [] \<and>
          structured_data (kv # kvs) = Inr s \<and> export E s (JArr []) = (None, els) \<and>
          load_logs E st = Inr logs \<longrightarrow>
          app_main E inp st =
            (\<lparr>result = (if truthy logs
                        then (case st_dataframe E logs of None \<Rightarrow> Inr () | Some e \<Rightarrow> Inl e)
                        else Inr ()),
              shown = [Sidebar_write [Lit ''Logged in as: `'', Lit (user inp), Lit ''`''],
                       Title ''Campaign Caller'',
                       Markdown [Lit ''---''], Subheader ''Fetch Call Transcripts'',
                       Markdown [Lit (''### '' @ pictograph 0x93 0x84 @ '' Full Transcript'')],
                       Text (JStr t),
                       Subheader (pictograph 0x98 0x8A @ '' Sentiment Analysis''),
                       Write [Lit ''**Polarity:** '', Lit (fst (sentiment E t)),
                              Lit ('' ('' @ minus_sign @ ''1 = Negative, +1 = Positive)'')],
                       Write [Lit ''**Subjectivity:** '', Lit (snd (sentiment E t)),
                              Lit '' (0 = Objective, 1 = Subjective)''],
                       Subheader (pictograph 0x93 0x8A @ '' QA Evaluation via LLaMA 4''),
                       Error ''LLaMA evaluation failed.'', Exception (json_exn f)] @
                      els @
                      [Markdown [Lit ''---''],
                       Subheader (pictograph 0x93 0x81 @ '' Saved Call Logs'')] @
                      (if truthy logs
                       then (case st_dataframe E logs of
                               None \<Rightarrow> [Dataframe logs] | Some e \<Rightarrow> [])
                       else [Info ''No calls logged yet.'']),
              sent = [GET (call_url (call_id inp)) 10]\<rparr>, st))"
proof -
  have 1: "evaluate_qa E t =
      ([Error ''LLaMA evaluation failed.'', Exception (json_exn f)], JArr [])"
    using assms by (simp add: evaluate_qa_def)
  have 2: "analyze E (JStr t) =
           (Inr (JArr []),
            sentiment_lines E t @
            [Error ''LLaMA evaluation failed.'', Exception (json_exn f)])"
    using 1 by (simp add: analyze_def)
  have 3: "app_main E inp st =
            (\<lparr>result = result (show_logs E st),
              shown = [Sidebar_write [Lit ''Logged in as: `'', Lit (user inp), Lit ''`''],
                       Title ''Campaign Caller'',
                       Markdown [Lit ''---''], Subheader ''Fetch Call Transcripts''] @
                      sentiment_lines E t @
                      [Error ''LLaMA evaluation failed.'', Exception (json_exn f)] @
                      els @
                      [Markdown [Lit ''---''],
                       Subheader (pictograph 0x93 0x81 @ '' Saved Call Logs'')] @
                      shown (show_logs E st),
              sent = [GET (call_url (call_id inp)) 10] @ sent (show_logs E st)\<rparr>, st)"
    if h: "\<not> logout inp" "\<not> submitted inp" "get_transcript inp"
      "result (fetch_call_details E (call_id inp)) = Inr (JObj (kv # kvs))"
      "map_of (kv # kvs) ''transcript'' = Some (JStr t)" "t \<noteq> []"
      "structured_data (kv # kvs) = Inr s" "export E s (JArr []) = (None, els)"
  proof -
    have q: "shown (fetch_call_details E (call_id inp)) = []"
      "sent (fetch_call_details E (call_id inp)) = [GET (call_url (call_id inp)) 10]"
      using fetch_call_details_quiet [OF h(4)] by simp_all
    have ts: "transcript_section E (call_id inp) =
        \<lparr>result = Inr (),
         shown = sentiment_lines E t @
                 [Error ''LLaMA evaluation failed.'', Exception (json_exn f)] @ els,
         sent = [GET (call_url (call_id inp)) 10]\<rparr>"
      using h q 2 by (simp add: transcript_section_def Let_def del: map_of.simps)
    show ?thesis
      using h(1,2,3) ts
      by (simp add: app_main_def and_then_def emit_def Let_def)
  qed
  show ?thesis
  proof (intro conjI impI)
    show "evaluate_qa E t =
        ([Error ''LLaMA evaluation failed.'', Exception (json_exn f)], JArr [])"
      by (rule 1)
  next
    from 2 show "analyze E (JStr t) =
           (Inr (JArr []),
            [Markdown [Lit (''### '' @ pictograph 0x93 0x84 @ '' Full Transcript'')],
             Text (JStr t),
             Subheader (pictograph 0x98 0x8A @ '' Sentiment Analysis''),
             Write [Lit ''**Polarity:** '', Lit (fst (sentiment E t)),
                    Lit ('' ('' @ minus_sign @ ''1 = Negative, +1 = Positive)'')],
             Write [Lit ''**Subjectivity:** '', Lit (snd (sentiment E t)),
                    Lit '' (0 = Objective, 1 = Subjective)''],
             Subheader (pictograph 0x93 0x8A @ '' QA Evaluation via LLaMA 4''),
             Error ''LLaMA evaluation failed.'', Exception (json_exn f)])"
      by (simp add: sentiment_lines_def)
  next
    assume a: "\<not> logout inp \<and> \<not> submitted inp \<and> get_transcript inp \<and>
          result (fetch_call_details E (call_id inp)) = Inr (JObj (kv # kvs)) \<and>
          map_of (kv # kvs) ''transcript'' = Some (JStr t) \<and> t \<noteq> [] \<and>
          structured_data (kv # kvs) = Inr s \<and> export E s (JArr []) = (None, els) \<and>
          load_logs E st = Inr logs"
    then have l: "load_logs E st = Inr logs" by simp
    from a have "app_main E inp st =
            (\<lparr>result = result (show_logs E st),
              shown = [Sidebar_write [Lit ''Logged in as: `'', Lit (user inp), Lit ''`''],
                       Title ''Campaign Caller'',
                       Markdown [Lit ''---''], Subheader ''Fetch Call Transcripts''] @
                      sentiment_lines E t @
                      [Error ''LLaMA evaluation failed.'', Exception (json_exn f)] @
                      els @
                      [Markdown [Lit ''---''],
                       Subheader (pictograph 0x93 0x81 @ '' Saved Call Logs'')] @
                      shown (show_logs E st),
              sent = [GET (call_url (call_id inp)) 10] @ sent (show_logs E st)\<rparr>, st)"
      by (intro 3) simp_all
    then show "app_main E inp st =
            (\<lparr>result = (if truthy logs
                        then (case st_dataframe E logs of None \<Rightarrow> Inr () | Some e \<Rightarrow> Inl e)
                        else Inr ()),
              shown = [Sidebar_write [Lit ''Logged in as: `'', Lit (user inp), Lit ''`''],
                       Title ''Campaign Caller'',
                       Markdown [Lit ''---''], Subheader ''Fetch Call Transcripts'',
                       Markdown [Lit (''### '' @ pictograph 0x93 0x84 @ '' Full Transcript'')],
                       Text (JStr t),
                       Subheader (pictograph 0x98 0x8A @ '' Sentiment Analysis''),
                       Write [Lit ''**Polarity:** '', Lit (fst (sentiment E t)),
                              Lit ('' ('' @ minus_sign @ ''1 = Negative, +1 = Positive)'')],
                       Write [Lit ''**Subjectivity:** '', Lit (snd (sentiment E t)),
                              Lit '' (0 = Objective, 1 = Subjective)''],
                       Subheader (pictograph 0x93 0x8A @ '' QA Evaluation via LLaMA 4''),
                       Error ''LLaMA evaluation failed.'', Exception (json_exn f)] @
                      els @
                      [Markdown [Lit ''---''],
                       Subheader (pictograph 0x93 0x81 @ '' Saved Call Logs'')] @
                      (if truthy logs
                       then (case st_dataframe E logs of
                               None \<Rightarrow> [Dataframe logs] | Some e \<Rightarrow> [])
                       else [Info ''No calls logged yet.'']),
              sent = [GET (call_url (call_id inp)) 10]\<rparr>, st)"
      by (simp add: show_logs_cases [OF l] sentiment_lines_def)
  qed
qed

theorem evaluate_qa_invalid_json_witness:
  "groq_create demo_env ''llama3-70b-8192''
     ''You are a strict QA evaluator. Respond only in valid JSON.''
     (prompt qa_questions ''Hello, this is...'') = Inr (Some ''I am sorry, I cannot rate this call.'') \<and>
   json_loads demo_env ''I am sorry, I cannot rate this call.'' = Inl Malformed \<and>
   evaluate_qa demo_env ''Hello, this is...''
     = ([Error ''LLaMA evaluation failed.'', Exception JSONDecodeError], JArr []) \<and>
   app_main demo_env demo_inputs \<lparr>log_file = Content demo_text, writable = True, capacity = None\<rparr> =
     (\<lparr>result = Inr (),
       shown = [Sidebar_write [Lit ''Logged in as: `'', Lit ''someone@gmail.com'', Lit ''`''],
                Title ''Campaign Caller'',
                Markdown [Lit ''---''], Subheader ''Fetch Call Transcripts'',
                Markdown [Lit (''### '' @ pictograph 0x93 0x84 @ '' Full Transcript'')],
                Text (JStr ''Hello, this is...''),
                Subheader (pictograph 0x98 0x8A @ '' Sentiment Analysis''),
                Write [Lit ''**Polarity:** '', Lit ''0.00'',
                       Lit ('' ('' @ minus_sign @ ''1 = Negative, +1 = Positive)'')],
                Write [Lit ''**Subjectivity:** '', Lit ''0.00'',
                       Lit '' (0 = Objective, 1 = Subjective)''],
                Subheader (pictograph 0x93 0x8A @ '' QA Evaluation via LLaMA 4''),
                Error ''LLaMA evaluation failed.'', Exception JSONDecodeError,
                Markdown [Lit ''---''],
                Subheader (pictograph 0x93 0x81 @ '' Saved Call Logs''),
                Dataframe (JArr [demo_entry])],
       sent = [GET ''https://api.vapi.ai/call/abc123'' 10]\<rparr>,
      \<lparr>log_file = Content demo_text, writable = True, capacity = None\<rparr>) \<and>
   app_main demo_env demo_inputs \<lparr>log_file = Content ''5'', writable = True, capacity = None\<rparr> =
     (\<lparr>result = Inl StreamlitAPIException,
       shown = [Sidebar_write [Lit ''Logged in as: `'', Lit ''someone@gmail.com'', Lit ''`''],
                Title ''Campaign Caller'',
                Markdown [Lit ''---''], Subheader ''Fetch Call Transcripts'',
                Markdown [Lit (''### '' @ pictograph 0x93 0x84 @ '' Full Transcript'')],
                Text (JStr ''Hello, this is...''),
                Subheader (pictograph 0x98 0x8A @ '' Sentiment Analysis''),
                Write [Lit ''**Polarity:** '', Lit ''0.00'',
                       Lit ('' ('' @ minus_sign @ ''1 = Negative, +1 = Positive)'')],
                Write [Lit ''**Subjectivity:** '', Lit ''0.00'',
                       Lit '' (0 = Objective, 1 = Subjective)''],
                Subheader (pictograph 0x93 0x8A @ '' QA Evaluation via LLaMA 4''),
                Error ''LLaMA evaluation failed.'', Exception JSONDecodeError,
                Markdown [Lit ''---''],
                Subheader (pictograph 0x93 0x81 @ '' Saved Call Logs'')],
       sent = [GET ''https://api.vapi.ai/call/abc123'' 10]\<rparr>,
      \<lparr>log_file = Content ''5'', writable = True, capacity = None\<rparr>)"
proof -
  have g: "groq_create demo_env ''llama3-70b-8192''
     ''You are a strict QA evaluator. Respond only in valid JSON.''
     (prompt qa_questions ''Hello, this is...'') = Inr (Some ''I am sorry, I cannot rate this call.'')"
    by (simp add: demo_env_def)
  have l: "json_loads demo_env ''I am sorry, I cannot rate this call.'' = Inl Malformed"
    by (simp add: demo_defs)
  have f: "result (fetch_call_details demo_env (call_id demo_inputs))
      = Inr (JObj ((''transcript'', JStr ''Hello, this is...'') # []))"
    by (simp add: demo_defs demo_inputs_def demo_details_def fetch_call_details_def call_url_def)
  have s: "structured_data ((''transcript'', JStr ''Hello, this is...'') # []) = Inr JNull"
    by (simp add: structured_data_def)
  have e: "export demo_env JNull (JArr []) = (None, [])"
    by (simp add: export_def)
  have v1: "load_logs demo_env \<lparr>log_file = Content demo_text, writable = True, capacity = None\<rparr>
      = Inr (JArr [demo_entry])"
    by (simp add: load_logs_value demo_defs)
  have v2: "load_logs demo_env \<lparr>log_file = Content ''5'', writable = True, capacity = None\<rparr>
      = Inr (JInt 5)"
    by (simp add: load_logs_value demo_defs)
  have d: "st_dataframe demo_env (JArr [demo_entry]) = None"
    "st_dataframe demo_env (JInt 5) = Some StreamlitAPIException"
    "fst (sentiment demo_env ''Hello, this is...'') = ''0.00''"
    "snd (sentiment demo_env ''Hello, this is...'') = ''0.00''"
    by (simp_all add: demo_env_def)
  from evaluate_qa_invalid_json [OF g l, of demo_inputs "(''transcript'', JStr ''Hello, this is...'')"
      "[]" JNull "[]" "\<lparr>log_file = Content demo_text, writable = True, capacity = None\<rparr>"
      "JArr [demo_entry]"]
    evaluate_qa_invalid_json [OF g l, of demo_inputs "(''transcript'', JStr ''Hello, this is...'')"
      "[]" JNull "[]" "\<lparr>log_file = Content ''5'', writable = True, capacity = None\<rparr>"
      "JInt 5"]
    f s e v1 v2 g l d
  show ?thesis
    by (simp add: demo_inputs_def call_url_def)
qed

section \<open>Properties of the evaluation loop\<close>

lemma is_text_string: "is_text v \<Longrightarrow> \<exists>s. v = JStr s"
  by (cases v) (simp_all add: is_text_def)

lemma field_is_lookup:
  "field_is P item k \<Longrightarrow> \<exists>kvs v. item = JObj kvs \<and> map_of kvs k = Some v \<and> P v"
  by (cases item) (auto simp add: field_is_def split: option.splits)

lemma qa_item_shape_fields:
  "qa_item_shape item \<Longrightarrow>
   \<exists>kvs q r x. item = JObj kvs \<and> map_of kvs ''question'' = Some (JStr q) \<and>
     map_of kvs ''rating'' = Some r \<and> is_rating r \<and>
     map_of kvs ''explanation'' = Some (JStr x)"
proof -
  assume a: "qa_item_shape item"
  then obtain kvs q where 1: "item = JObj kvs" "map_of kvs ''question'' = Some q" "is_text q"
    using field_is_lookup [of is_text item "''question''"] by (auto simp add: qa_item_shape_def)
  from a 1(1) obtain r where 2: "map_of kvs ''rating'' = Some r" "is_rating r"
    using field_is_lookup [of is_rating item "''rating''"] by (auto simp add: qa_item_shape_def)
  from a 1(1) obtain x where 3: "map_of kvs ''explanation'' = Some x" "is_text x"
    using field_is_lookup [of is_text item "''explanation''"] by (auto simp add: qa_item_shape_def)
  from 1 2 3 is_text_string [of q] is_text_string [of x] show ?thesis by auto
qed

lemma rating_score_of_rating:
  "is_rating r \<Longrightarrow>
   rating_score E r = None \<or> (\<exists>n. rating_score E r = Some (Inr n) \<and> n \<le> 5)"
  by (cases r) (auto simp add: is_rating_def is_digit_def str_isdigit_def char_class_def is_cont_def)

lemma overflow_from_large: "5 < overflow_from"
  by (simp add: overflow_from_def)

lemma shaped_item_renders:
  "qa_item_shape item \<Longrightarrow>
   \<exists>acc'. qa_item E item acc = (fst (qa_item E item ([], [])), Inr acc')"
proof -
  assume "qa_item_shape item"
  then obtain kvs q r x where f: "item = JObj kvs" "map_of kvs ''question'' = Some (JStr q)"
    "map_of kvs ''rating'' = Some r" "is_rating r" "map_of kvs ''explanation'' = Some (JStr x)"
    using qa_item_shape_fields by blast
  from rating_score_of_rating [OF f(4), of E] f(1,2,3,5) overflow_from_large show ?thesis
    by (auto simp add: qa_item_def item_lines_def subscript_def label_of_def)
qed

lemma shaped_items_render:
  "\<forall>item \<in> set items. qa_item_shape item \<Longrightarrow>
   \<exists>acc'. qa_loop E items acc =
     (concat (map (\<lambda>item. fst (qa_item E item ([], []))) items), Inr acc')"
proof (induction items arbitrary: acc)
  case Nil
  show ?case by simp
next
  case (Cons item items)
  from Cons.prems have "qa_item_shape item" by simp
  then obtain acc1 where 1: "qa_item E item acc = (fst (qa_item E item ([], [])), Inr acc1)"
    using shaped_item_renders by blast
  from Cons.prems have "\<forall>item \<in> set items. qa_item_shape item" by simp
  then obtain acc2 where 2: "qa_loop E items acc1 =
     (concat (map (\<lambda>item. fst (qa_item E item ([], []))) items), Inr acc2)"
    using Cons.IH by blast
  from 1 2 show ?case by simp
qed

lemma missing_field_fails:
  "map_of kvs ''question'' = None \<or> map_of kvs ''rating'' = None \<or>
   map_of kvs ''explanation'' = None \<Longrightarrow>
   snd (qa_item E (JObj kvs) acc) = Inl KeyError"
  by (auto simp add: qa_item_def item_lines_def subscript_def split: option.splits)

lemma missing_field_stops_loop:
  "\<forall>item \<in> set pre. qa_item_shape item \<Longrightarrow>
   map_of kvs ''question'' = None \<or> map_of kvs ''rating'' = None \<or>
   map_of kvs ''explanation'' = None \<Longrightarrow>
   \<exists>rest. qa_loop E (pre @ JObj kvs # post) acc =
     (concat (map (\<lambda>item. fst (qa_item E item ([], []))) pre) @ rest, Inl KeyError)"
proof (induction pre arbitrary: acc)
  case Nil
  from missing_field_fails [OF Nil.prems(2), where acc = acc and E = E]
  show ?case by (auto split: prod.splits sum.splits)
next
  case (Cons item pre)
  from Cons.prems have "qa_item_shape item" by simp
  then obtain acc1 where 1: "qa_item E item acc = (fst (qa_item E item ([], [])), Inr acc1)"
    using shaped_item_renders by blast
  from Cons.prems have "\<forall>item \<in> set pre. qa_item_shape item" by simp
  from Cons.IH [OF this Cons.prems(2), of acc1]
  obtain rest where 2: "qa_loop E (pre @ JObj kvs # post) acc1 =
     (concat (map (\<lambda>item. fst (qa_item E item ([], []))) pre) @ rest, Inl KeyError)"
    by blast
  from 1 2 show ?case by simp
qed

lemma subscript_extra:
  "map_of kvs k \<noteq> None \<Longrightarrow> subscript (JObj (kvs @ extra)) k = subscript (JObj kvs) k"
  by (auto simp add: subscript_def map_add_def split: option.splits)

lemma item_lines_extra:
  assumes "map_of kvs ''question'' \<noteq> None" "map_of kvs ''rating'' \<noteq> None"
    "map_of kvs ''explanation'' \<noteq> None"
  shows "item_lines (JObj (kvs @ extra)) = item_lines (JObj kvs)"
  unfolding item_lines_def
  by (simp only: subscript_extra [OF assms(1)] subscript_extra [OF assms(2)]
      subscript_extra [OF assms(3)])

lemma extra_fields_ignored:
  "map_of kvs ''question'' \<noteq> None \<and> map_of kvs ''rating'' \<noteq> None \<and>
   map_of kvs ''explanation'' \<noteq> None \<Longrightarrow>
   qa_item E (JObj (kvs @ extra)) acc = qa_item E (JObj kvs) acc"
proof -
  assume "map_of kvs ''question'' \<noteq> None \<and> map_of kvs ''rating'' \<noteq> None \<and>
   map_of kvs ''explanation'' \<noteq> None"
  then have "item_lines (JObj (kvs @ extra)) = item_lines (JObj kvs)"
    using item_lines_extra [of kvs extra] by blast
  then show ?thesis
    unfolding qa_item_def by (rule arg_cong)
qed

text \<open>
  Claim C5, as the code has it. The loop never looks at the rubric: any list of items of
  the shape of the specification, in any number and order, is shown item by item in the
  order received and the evaluation succeeds. Keys beyond the three are ignored. An item
  that lacks one of the three keys raises \<open>KeyError\<close> when it is reached, and an exception
  in the loop ends the evaluation with its failure message after what was shown so far;
  \<open>parsed\<close> keeps the parsed answer.
\<close>

theorem qa_results_tolerance:
  "((\<forall>item \<in> set items. qa_item_shape item) \<longrightarrow>
      snd (qa_results E (JArr items)) = None \<and>
      (\<exists>chart. fst (qa_results E (JArr items)) =
         Subheader (pictograph 0x93 0x9D @ '' QA Evaluation Results'') #
         concat (map (\<lambda>item. fst (qa_item E item ([], []))) items) @ chart)) \<and>
   (map_of kvs ''question'' \<noteq> None \<and> map_of kvs ''rating'' \<noteq> None \<and>
    map_of kvs ''explanation'' \<noteq> None \<longrightarrow>
      qa_item E (JObj (kvs @ extra)) acc = qa_item E (JObj kvs) acc) \<and>
   ((\<forall>item \<in> set pre. qa_item_shape item) \<and>
    (map_of bad ''question'' = None \<or> map_of bad ''rating'' = None \<or>
     map_of bad ''explanation'' = None) \<longrightarrow>
      snd (qa_results E (JArr (pre @ JObj bad # post))) = Some KeyError \<and>
      (\<exists>rest. fst (qa_results E (JArr (pre @ JObj bad # post))) =
         Subheader (pictograph 0x93 0x9D @ '' QA Evaluation Results'') #
         concat (map (\<lambda>item. fst (qa_item E item ([], []))) pre) @ rest)) \<and>
   (groq_create E ''llama3-70b-8192''
       ''You are a strict QA evaluator. Respond only in valid JSON.''
       (prompt qa_questions t) = Inr (Some response) \<and>
    json_loads E response = Inr parsed \<longrightarrow>
      evaluate_qa E t =
        (case snd (qa_results E parsed) of
           None \<Rightarrow> (fst (qa_results E parsed), parsed)
         | Some e \<Rightarrow>
             (fst (qa_results E parsed) @ [Error ''LLaMA evaluation failed.'', Exception e],
              parsed)))"
proof (intro conjI impI)
  assume a: "\<forall>item \<in> set items. qa_item_shape item"
  from shaped_items_render [OF a, where acc = "([], [])" and E = E]
  obtain acc' where l: "qa_loop E items ([], []) =
     (concat (map (\<lambda>item. fst (qa_item E item ([], []))) items), Inr acc')"
    by blast
  from l show "snd (qa_results E (JArr items)) = None"
    by (simp add: qa_results_def py_iter_def split: prod.splits)
  from l show "\<exists>chart. fst (qa_results E (JArr items)) =
         Subheader (pictograph 0x93 0x9D @ '' QA Evaluation Results'') #
         concat (map (\<lambda>item. fst (qa_item E item ([], []))) items) @ chart"
    by (simp add: qa_results_def py_iter_def split: prod.splits)
next
  assume "map_of kvs ''question'' \<noteq> None \<and> map_of kvs ''rating'' \<noteq> None \<and>
    map_of kvs ''explanation'' \<noteq> None"
  then show "qa_item E (JObj (kvs @ extra)) acc = qa_item E (JObj kvs) acc"
    by (rule extra_fields_ignored)
next
  assume a: "(\<forall>item \<in> set pre. qa_item_shape item) \<and>
    (map_of bad ''question'' = None \<or> map_of bad ''rating'' = None \<or>
     map_of bad ''explanation'' = None)"
  then obtain rest where l: "qa_loop E (pre @ JObj bad # post) ([], []) =
     (concat (map (\<lambda>item. fst (qa_item E item ([], []))) pre) @ rest, Inl KeyError)"
    using missing_field_stops_loop [where pre = pre and kvs = bad and post = post
        and acc = "([], [])" and E = E] by blast
  from l show "snd (qa_results E (JArr (pre @ JObj bad # post))) = Some KeyError"
    by (simp add: qa_results_def py_iter_def)
  from l show "\<exists>rest. fst (qa_results E (JArr (pre @ JObj bad # post))) =
         Subheader (pictograph 0x93 0x9D @ '' QA Evaluation Results'') #
         concat (map (\<lambda>item. fst (qa_item E item ([], []))) pre) @ rest"
    by (simp add: qa_results_def py_iter_def)
next
  assume "groq_create E ''llama3-70b-8192''
       ''You are a strict QA evaluator. Respond only in valid JSON.''
       (prompt qa_questions t) = Inr (Some response) \<and>
    json_loads E response = Inr parsed"
  then show "evaluate_qa E t =
        (case snd (qa_results E parsed) of
           None \<Rightarrow> (fst (qa_results E parsed), parsed)
         | Some e \<Rightarrow>
             (fst (qa_results E parsed) @ [Error ''LLaMA evaluation failed.'', Exception e],
              parsed))"
    by (auto simp add: evaluate_qa_def split: prod.splits option.splits)
qed

lemma demo_items_shaped: "\<forall>item \<in> set demo_items. qa_item_shape item"
  by (simp add: demo_items_def qa_item_shape_def field_is_def is_text_def is_rating_def)

theorem qa_results_tolerance_witness:
  "qa_item_shape (demo_items ! 0) \<and> qa_item_shape (demo_items ! 1) \<and>
   qa_results demo_env (JArr demo_items) =
     ([Subheader (pictograph 0x93 0x9D @ '' QA Evaluation Results''),
       Markdown [Lit ''**Q:** '',
                 Fmt (JStr ''Did the agent sound upbeat, enthusiastic, and friendly?'')],
       Write [Lit ''**Rating:** '', Fmt (JStr ''N/A'')],
       Write [Lit ''**Explanation:** '', Fmt (JStr ''The call was too short to tell.'')],
       Markdown [Lit ''**Rating Scale:** N/A (Not Applicable)''],
       Markdown [Lit ''---''],
       Markdown [Lit ''**Q:** '', Fmt (JStr ''Did the agent identify the reason for the call?'')],
       Write [Lit ''**Rating:** '', Fmt (JInt 5)],
       Write [Lit ''**Explanation:** '', Fmt (JStr ''The recall was named at once.'')],
       Progress 5,
       Markdown [Lit scale_legend],
       Markdown [Lit ''---''],
       Subheader (pictograph 0x93 0x88 @ '' Ratings Overview''),
       Pyplot [''Did the agent identify the reason for the call?...''] [5]],
      None) \<and>
   map_of [(''question'', JStr ''Was the agent professional throughout the call?''),
           (''rating'', JInt 5)] ''explanation'' = None \<and>
   snd (qa_results demo_env (JArr demo_answer_items)) = Some KeyError"
proof -
  have 1: "snd (qa_results demo_env (JArr demo_items)) = None"
    using qa_results_tolerance [where items = demo_items and E = demo_env] demo_items_shaped by blast
  have 2: "snd (qa_results demo_env (JArr demo_answer_items)) = Some KeyError"
    using qa_results_tolerance [where E = demo_env and pre = "[demo_answer_items ! 0]"
        and bad = "[(''question'', JStr ''Was the agent professional throughout the call?''),
          (''rating'', JInt 5)]" and post = "[]"]
    by (simp add: demo_answer_items_def qa_item_shape_def field_is_def is_text_def is_rating_def)
  have 3: "fst (qa_results demo_env (JArr demo_items)) =
      [Subheader (pictograph 0x93 0x9D @ '' QA Evaluation Results''),
       Markdown [Lit ''**Q:** '',
                 Fmt (JStr ''Did the agent sound upbeat, enthusiastic, and friendly?'')],
       Write [Lit ''**Rating:** '', Fmt (JStr ''N/A'')],
       Write [Lit ''**Explanation:** '', Fmt (JStr ''The call was too short to tell.'')],
       Markdown [Lit ''**Rating Scale:** N/A (Not Applicable)''],
       Markdown [Lit ''---''],
       Markdown [Lit ''**Q:** '', Fmt (JStr ''Did the agent identify the reason for the call?'')],
       Write [Lit ''**Rating:** '', Fmt (JInt 5)],
       Write [Lit ''**Explanation:** '', Fmt (JStr ''The recall was named at once.'')],
       Progress 5,
       Markdown [Lit scale_legend],
       Markdown [Lit ''---''],
       Subheader (pictograph 0x93 0x88 @ '' Ratings Overview''),
       Pyplot [''Did the agent identify the reason for the call?...''] [5]]"
    by (simp add: demo_items_def qa_results_def py_iter_def qa_item_def item_lines_def
        subscript_def label_of_def is_digit_def str_isdigit_def char_class_def is_cont_def
        overflow_from_def)
  from 1 2 3 demo_items_shaped show ?thesis
    by (simp add: prod_eq_iff demo_items_def)
qed

text \<open>
  The claim as stated fails for an item with a missing field: after the first item and two
  lines of the second, the evaluation as a whole is reported as failed.
\<close>

theorem evaluate_qa_missing_field_counterexample:
  "evaluate_qa demo_env_answer ''Hello, this is...'' =
     ([Subheader (pictograph 0x93 0x9D @ '' QA Evaluation Results''),
       Markdown [Lit ''**Q:** '', Fmt (JStr ''Did the agent speak confidently?'')],
       Write [Lit ''**Rating:** '', Fmt (JInt 4)],
       Write [Lit ''**Explanation:** '', Fmt (JStr ''Clear and steady.'')],
       Progress 4,
       Markdown [Lit scale_legend],
       Markdown [Lit ''---''],
       Markdown [Lit ''**Q:** '',
                 Fmt (JStr ''Was the agent professional throughout the call?'')],
       Write [Lit ''**Rating:** '', Fmt (JInt 5)],
       Error ''LLaMA evaluation failed.'',
       Exception KeyError],
      JArr demo_answer_items)"
  by (simp add: demo_env_answer_def demo_answer_items_def evaluate_qa_def
      qa_results_def py_iter_def qa_item_def item_lines_def
      subscript_def label_of_def is_digit_def str_isdigit_def char_class_def is_cont_def
        overflow_from_def)

end
